theory Spec2Isabelle
  imports Complex_Main "HOL-Library.AList" "HOL-Library.Sublist"
begin

section \<open>Data model (common/comms.py)\<close>

text \<open>
  The class \<open>DataBatch\<close>: one slice of a subsample file. The attribute
  \<open>processed_data\<close> is \<open>None\<close> until a worker fills it; the array type of the
  awkward library is left abstract (the type parameter).
\<close>

record 'a DataBatch =
  batch_id :: string
  sample :: string
  subsample :: string
  sample_type :: string
  path :: string
  fraction :: real
  start_index :: int
  stop_index :: int
  processed_data :: "'a option"

text \<open>The constructor \<open>DataBatch.__init__\<close>: \<open>processed_data\<close> starts as \<open>None\<close>.\<close>

definition new_DataBatch ::
  "string \<Rightarrow> string \<Rightarrow> string \<Rightarrow> string \<Rightarrow> string \<Rightarrow> real \<Rightarrow> int \<Rightarrow> int \<Rightarrow> 'a DataBatch" where
  "new_DataBatch bid smp sub st p fr start stop =
     \<lparr>batch_id = bid, sample = smp, subsample = sub, sample_type = st, path = p,
      fraction = fr, start_index = start, stop_index = stop, processed_data = None\<rparr>"

section \<open>Reconciliation (manager/higgs_manager.py, missing_batches)\<close>

text \<open>
  A Python dict as an association list in insertion order: assigning to a key that is
  present replaces the value in place, a new key goes to the end. The dict comprehension
  of the source inserts the expected batches from left to right.
\<close>

definition expected_batches_map :: "'a DataBatch list \<Rightarrow> (string \<times> 'a DataBatch) list" where
  "expected_batches_map expected_batches =
     fold (\<lambda>batch m. AList.update (batch_id batch) batch m) expected_batches []"

definition batch_id_set :: "'a DataBatch list \<Rightarrow> string set" where
  "batch_id_set batches = set (map batch_id batches)"

text \<open>
  \<open>missing_batches\<close>. The source iterates over a Python set of identifiers, whose
  order is not specified; the model lists them in the order of the dict's keys. The
  theorems below speak of the set of the returned batches and of their number only.
\<close>

definition missing_batches ::
  "'a DataBatch list \<Rightarrow> 'a DataBatch list \<Rightarrow> 'a DataBatch list option" where
  "missing_batches expected_batches retrieved_batches =
     (let m = expected_batches_map expected_batches;
          retrieved_batch_ids = batch_id_set retrieved_batches;
          missing_batch_ids = filter (\<lambda>k. k \<notin> retrieved_batch_ids) (map fst m)
      in if length missing_batch_ids = 0 then None
         else Some (map (\<lambda>k. the (map_of m k)) missing_batch_ids))"

text \<open>A batch of the measured sample, as \<open>data_batcher\<close> builds it, for the concrete runs below.\<close>

definition demo_batch :: "string \<Rightarrow> string \<Rightarrow> unit DataBatch" where
  "demo_batch bid smp =
     new_DataBatch bid smp ''data_A'' ''measured'' ''Data/data_A.4lep.root'' 1 0 100"

section \<open>Collection (manager/higgs_manager.py, retrieve_batches)\<close>

text \<open>
  What the manager and the worker do to the outside, in order: the calls on the
  connection and its channels, the sleeps and the printed lines.
  \<open>Basic_get q r\<close> is one poll of queue \<open>q\<close> with response \<open>r\<close> (\<open>None\<close> when
  the queue had no message, otherwise the un-pickled batch); \<open>Basic_publish q m\<close> sends
  the pickled batch \<open>m\<close> to queue \<open>q\<close>; \<open>Basic_ack\<close> and \<open>Basic_nack\<close> carry the
  delivery tag (and the requeue flag); \<open>Time_check t\<close> is one reading \<open>t\<close> of the clock
  for the termination test.
\<close>

datatype 'm event =
    Channel_open
  | Queue_declare string
  | Basic_get string "'m option"
  | Basic_publish string 'm
  | Basic_ack nat
  | Basic_nack nat bool
  | Time_check real
  | Sleep real
  | Channel_close
  | Connection_close
  | Print string

text \<open>
  The loop either returns its list, or is still polling when the given trace of the
  transport ends; then the list accumulated so far is kept.
\<close>

datatype 'm collected = Returned "'m list" | Polling "'m list"

fun batches_of :: "'m collected \<Rightarrow> 'm list" where
  "batches_of (Returned bs) = bs"
| "batches_of (Polling bs) = bs"

text \<open>
  The \<open>while\<close> loop of \<open>retrieve_batches\<close>. The transport and the clock are given as
  a trace: one entry per iteration, holding the response of \<open>basic_get\<close> and the value
  that \<open>time.time()\<close> returns at the termination test of that iteration. Clock values
  are real numbers (seconds); \<open>start\<close> is the reading taken on entry.
\<close>

fun poll_loop ::
  "string \<Rightarrow> int \<Rightarrow> real \<Rightarrow> real \<Rightarrow> real \<Rightarrow> 'm list \<Rightarrow> ('m option \<times> real) list \<Rightarrow>
   'm collected \<times> 'm event list" where
  "poll_loop queue_name num_batches wait_time terminate_time start batches [] =
     (if int (length batches) \<noteq> num_batches then (Polling batches, [])
      else (Returned batches, [Channel_close]))"
| "poll_loop queue_name num_batches wait_time terminate_time start batches ((response, now) # rest) =
     (if int (length batches) \<noteq> num_batches then
        (let batches' = (case response of None \<Rightarrow> batches | Some m \<Rightarrow> batches @ [m])
         in if now - start > terminate_time then
              (Returned batches', [Basic_get queue_name response, Time_check now, Channel_close])
            else
              (let (r, events) =
                     poll_loop queue_name num_batches wait_time terminate_time start batches' rest
               in (r, [Basic_get queue_name response, Time_check now, Sleep wait_time] @ events)))
      else (Returned batches, [Channel_close]))"

definition retrieve_batches ::
  "string \<Rightarrow> int \<Rightarrow> real \<Rightarrow> real \<Rightarrow> real \<Rightarrow> ('m option \<times> real) list \<Rightarrow>
   'm collected \<times> 'm event list" where
  "retrieve_batches queue_name num_batches wait_time terminate_time start trace =
     (let (r, events) = poll_loop queue_name num_batches wait_time terminate_time start [] trace
      in (r, [Channel_open, Queue_declare queue_name] @ events))"





section \<open>Partitioning (manager/higgs_manager.py, data_batcher)\<close>

datatype py_error = KeyError | OSError | ValueError | TypeError

text \<open>
  What \<open>data_batcher\<close> reads from outside the program: the identifiers that
  \<open>uuid.uuid4()\<close> draws (the \<open>i\<close>-th call, counted from 0, rendered by \<open>str\<close>), the
  table \<open>infofile.infos\<close> (the \<open>DSID\<close> entry of a subsample rendered by \<open>str\<close>;
  \<open>None\<close> when the subsample has no entry) and the number of entries of the tree
  \<open>mini\<close> of a data file (\<open>None\<close> when the file cannot be opened).
\<close>

record env =
  uuid4 :: "nat \<Rightarrow> string"
  DSID :: "string \<Rightarrow> string option"
  num_entries :: "string \<Rightarrow> int option"

text \<open>
  Python's \<open>round\<close> with one argument: the nearest integer, a tie going to the even
  one. The argument is a real number here; the rounding of the floating-point product
  is not modelled.
\<close>

definition py_round :: "real \<Rightarrow> int" where
  "py_round x =
     (let fl = \<lfloor>x\<rfloor>; d = x - of_int fl
      in if d < 1 / 2 then fl
         else if 1 / 2 < d then fl + 1
         else if even fl then fl else fl + 1)"

text \<open>
  The values of \<open>range(start, stop, step)\<close>. A zero step raises \<open>ValueError\<close> in
  Python; the caller below tests for it before the loop.
\<close>

function py_range :: "int \<Rightarrow> int \<Rightarrow> int \<Rightarrow> int list" where
  "py_range start stop step =
     (if 0 < step \<and> start < stop then start # py_range (start + step) stop step
      else if step < 0 \<and> stop < start then start # py_range (start + step) stop step
      else [])"
  by pat_completeness auto
termination
  by (relation "measure (\<lambda>(start, stop, step).
        nat (if 0 < step then stop - start else start - stop))") auto

text \<open>The sample type and the path of the data file of a subsample.\<close>

definition subsample_source :: "env \<Rightarrow> string \<Rightarrow> string \<Rightarrow> string \<Rightarrow> py_error + string \<times> string" where
  "subsample_source e root_path smp sub =
     (if smp = ''data'' then Inr (''measured'', root_path @ ''Data/'' @ sub @ ''.4lep.root'')
      else case DSID e sub of
             None \<Rightarrow> Inl KeyError
           | Some dsid \<Rightarrow>
               Inr (''monte-carlo'', root_path @ (''MC/mc_'' @ dsid @ ''.'') @ sub @ ''.4lep.root''))"

definition num_events_of :: "int \<Rightarrow> real \<Rightarrow> int" where
  "num_events_of data_num_events fr =
     min data_num_events (py_round (of_int data_num_events * fr))"

text \<open>The innermost loop: one batch per start index, appended to the list so far.\<close>

definition batch_range ::
  "env \<Rightarrow> string \<Rightarrow> string \<Rightarrow> string \<Rightarrow> string \<Rightarrow> int \<Rightarrow> int \<Rightarrow> 'a DataBatch list \<Rightarrow>
   'a DataBatch list" where
  "batch_range e smp sub st path_subsample num_events batch_size batches =
     fold (\<lambda>start batches.
             (let stop = min (start + batch_size) num_events;
                  batch_fraction = of_int (stop - start) / of_int num_events
              in batches @ [new_DataBatch (uuid4 e (length batches)) smp sub st path_subsample
                              batch_fraction start stop]))
          (py_range 0 num_events batch_size) batches"

text \<open>The body of the loop over the subsamples of a sample.\<close>

definition batch_subsample ::
  "env \<Rightarrow> string \<Rightarrow> string \<Rightarrow> string \<Rightarrow> real \<Rightarrow> int \<Rightarrow> 'a DataBatch list \<Rightarrow>
   py_error + 'a DataBatch list" where
  "batch_subsample e smp sub root_path fr batch_size batches =
     (case subsample_source e root_path smp sub of
        Inl err \<Rightarrow> Inl err
      | Inr (st, path_subsample) \<Rightarrow>
          (case num_entries e (path_subsample @ '':mini'') of
             None \<Rightarrow> Inl OSError
           | Some data_num_events \<Rightarrow>
               (let num_events = num_events_of data_num_events fr
                in if batch_size = 0 then Inl ValueError
                   else Inr (batch_range e smp sub st path_subsample num_events batch_size
                               batches))))"

fun batch_subsamples ::
  "env \<Rightarrow> string \<Rightarrow> string list \<Rightarrow> string \<Rightarrow> real \<Rightarrow> int \<Rightarrow> 'a DataBatch list \<Rightarrow>
   py_error + 'a DataBatch list" where
  "batch_subsamples e smp [] root_path fr batch_size batches = Inr batches"
| "batch_subsamples e smp (sub # subs) root_path fr batch_size batches =
     (case batch_subsample e smp sub root_path fr batch_size batches of
        Inl err \<Rightarrow> Inl err
      | Inr batches' \<Rightarrow> batch_subsamples e smp subs root_path fr batch_size batches')"

text \<open>
  \<open>data_batcher\<close>. The dict \<open>samples\<close> is the list of its items in insertion order,
  each sample name with its \<open>"list"\<close> of subsamples.
\<close>

fun batch_samples ::
  "env \<Rightarrow> (string \<times> string list) list \<Rightarrow> string \<Rightarrow> real \<Rightarrow> int \<Rightarrow> 'a DataBatch list \<Rightarrow>
   py_error + 'a DataBatch list" where
  "batch_samples e [] root_path fr batch_size batches = Inr batches"
| "batch_samples e ((smp, subs) # samples) root_path fr batch_size batches =
     (case batch_subsamples e smp subs root_path fr batch_size batches of
        Inl err \<Rightarrow> Inl err
      | Inr batches' \<Rightarrow> batch_samples e samples root_path fr batch_size batches')"

definition data_batcher ::
  "env \<Rightarrow> (string \<times> string list) list \<Rightarrow> string \<Rightarrow> real \<Rightarrow> int \<Rightarrow> py_error + 'a DataBatch list" where
  "data_batcher e samples root_path fr batch_size = batch_samples e samples root_path fr batch_size []"




section \<open>Sending (common/comms.py, send_data)\<close>

definition send_data :: "'m list \<Rightarrow> string \<Rightarrow> 'm event list" where
  "send_data batches queue_name =
     [Channel_open, Queue_declare queue_name] @ map (Basic_publish queue_name) batches @
     [Channel_close]"

section \<open>Grouping (manager/higgs_manager.py, group_batches)\<close>

text \<open>
  The awkward library is outside the repository: its array type is the type parameter,
  and the two functions the manager calls are taken as given. \<open>concatenate\<close> gets a
  non-empty list of \<open>processed_data\<close> attributes (an attribute may be \<open>None\<close>) and
  returns an array or raises; \<open>len\<close> is the number of entries of an array.
\<close>

record 'a awkward =
  concatenate :: "'a option list \<Rightarrow> py_error + 'a"
  len :: "'a \<Rightarrow> nat"

text \<open>
  The call \<open>ak.concatenate(arrays)\<close>. Given no array at all, the library raises
  \<open>ValueError\<close> (need at least one array to concatenate); this is what happens for a
  sample none of whose batches is in the list.
\<close>

definition ak_concatenate :: "'a awkward \<Rightarrow> 'a option list \<Rightarrow> py_error + 'a" where
  "ak_concatenate lib arrays =
     (if arrays = [] then Inl ValueError else concatenate lib arrays)"

definition sample_arrays :: "'a DataBatch list \<Rightarrow> string \<Rightarrow> 'a option list" where
  "sample_arrays batches smp = map processed_data (filter (\<lambda>batch. sample batch = smp) batches)"

fun group_samples ::
  "'a awkward \<Rightarrow> 'a DataBatch list \<Rightarrow> string list \<Rightarrow> (string \<times> 'a) list \<Rightarrow>
   py_error + (string \<times> 'a) list" where
  "group_samples lib batches [] samples_data = Inr samples_data"
| "group_samples lib batches (smp # samples) samples_data =
     (case ak_concatenate lib (sample_arrays batches smp) of
        Inl err \<Rightarrow> Inl err
      | Inr arr \<Rightarrow> group_samples lib batches samples (AList.update smp arr samples_data))"

definition group_batches ::
  "'a awkward \<Rightarrow> 'a DataBatch list \<Rightarrow> (string \<times> string list) list \<Rightarrow>
   py_error + (string \<times> 'a) list" where
  "group_batches lib batches samples = group_samples lib batches (map fst samples) []"

section \<open>The manager (manager/higgs_manager.py, main)\<close>

text \<open>
  How a run of \<open>main\<close> ends: \<open>sys.exit\<close> with a code, an exception that nothing
  catches, a normal return, or (in the model only) still polling when the given trace of
  the transport ends. The exit code of the process is the argument of \<open>sys.exit\<close>, 1
  after an uncaught exception and 0 after a normal return.
\<close>

datatype outcome = Exit int | Raise py_error | Return | Waiting

fun exit_code :: "outcome \<Rightarrow> int option" where
  "exit_code (Exit n) = Some n"
| "exit_code (Raise err) = Some 1"
| "exit_code Return = Some 0"
| "exit_code Waiting = None"

text \<open>\<open>str\<close> of a non-negative integer.\<close>

function str_nat :: "nat \<Rightarrow> string" where
  "str_nat n = (if n < 10 then [''0123456789'' ! n]
                else str_nat (n div 10) @ [''0123456789'' ! (n mod 10)])"
  by pat_completeness auto
termination
  by (relation "measure (\<lambda>n. n)") auto

text \<open>
  The module \<open>config\<close>, as far as the manager reads it: the dict \<open>SAMPLES\<close> as
  the list of its items (sample name and \<open>"list"\<close> of subsamples), the root path,
  the fraction of the data to process (1.0 in the source) and the batch size (100000 in
  the source).
\<close>

record config =
  SAMPLES :: "(string \<times> string list) list"
  PATH :: string
  FRACTION :: real
  BATCH_SIZE :: int

text \<open>
  The block of \<open>main\<close> that reports missing batches. It yields the end of the run, or
  \<open>None\<close> when the run goes on. In the branch for at most half of the batches missing,
  the source prints the first warning and then iterates over \<open>missing_batches\<close>, which
  in \<open>main\<close> names the function (the list is bound to \<open>missing_data_batches\<close>):
  iterating over a function raises \<open>TypeError\<close>, before any batch and before the second
  warning is printed.
\<close>

definition report_missing ::
  "'a DataBatch list \<Rightarrow> 'a DataBatch list option \<Rightarrow> outcome option \<times> 'm event list" where
  "report_missing batches missing_data_batches =
     (case missing_data_batches of
        None \<Rightarrow> (None, [])
      | Some missing \<Rightarrow>
          if length missing > length batches div 2 then
            (Some (Exit 1), [Print ''error: missing more than 50% of the expected data''])
          else
            (Some (Raise TypeError), [Print ''warning: missing the following batches of data'']))"

text \<open>The loop of \<open>main\<close> over the samples, after grouping.\<close>

fun check_samples ::
  "'a awkward \<Rightarrow> (string \<times> 'a) list \<Rightarrow> string list \<Rightarrow> outcome option \<times> 'm event list" where
  "check_samples lib samples_data [] = (None, [])"
| "check_samples lib samples_data (smp # samples) =
     (case map_of samples_data smp of
        None \<Rightarrow> (Some (Raise KeyError), [])
      | Some arr \<Rightarrow>
          if len lib arr = 0 then
            (Some (Exit 1), [Print (''error: no data for sample - '' @ smp)])
          else
            (let warning = (if len lib arr < 50
                            then [Print (''warning: less than 50 events for sample - '' @ smp)]
                            else []);
                 (r, events) = check_samples lib samples_data samples
             in (r, warning @ events)))"

text \<open>
  The rest of \<open>main\<close> from the grouping on. \<open>plot_data\<close> is outside the model: the
  parameter \<open>plot\<close> says whether it raises.
\<close>

definition aggregate ::
  "'a awkward \<Rightarrow> ((string \<times> 'a) list \<Rightarrow> string \<Rightarrow> py_error option) \<Rightarrow> config \<Rightarrow>
   'a DataBatch list \<Rightarrow> outcome \<times> 'm event list" where
  "aggregate lib plot cfg processed_batches =
     (case group_batches lib processed_batches (SAMPLES cfg) of
        Inl err \<Rightarrow> (Raise err, [])
      | Inr samples_data \<Rightarrow>
          (case check_samples lib samples_data (map fst (SAMPLES cfg)) of
             (Some out, events) \<Rightarrow> (out, events)
           | (None, events) \<Rightarrow>
               (case plot samples_data ''output/higgs_zz.png'' of
                  Some err \<Rightarrow> (Raise err, events)
                | None \<Rightarrow> (Return, events @ [Print ''success: figure created'']))))"

text \<open>
  \<open>main\<close>. \<open>connection\<close> is what \<open>open_connection\<close> returned; \<open>e\<close> is what
  \<open>data_batcher\<close> reads; \<open>start\<close> and \<open>trace\<close> are the clock and the results queue
  as \<open>retrieve_batches\<close> sees them. Pickling is taken as lossless: a message is the
  batch itself. The calls on the connection and its channels are taken not to raise.
\<close>

definition main ::
  "config \<Rightarrow> 'a awkward \<Rightarrow> ((string \<times> 'a) list \<Rightarrow> string \<Rightarrow> py_error option) \<Rightarrow> 'c option \<Rightarrow>
   env \<Rightarrow> real \<Rightarrow> ('a DataBatch option \<times> real) list \<Rightarrow> outcome \<times> 'a DataBatch event list" where
  "main cfg lib plot connection e start trace =
     (case connection of
        None \<Rightarrow> (Exit 1, [Print ''error: RabbitMQ connection failed''])
      | Some c \<Rightarrow>
          (case data_batcher e (SAMPLES cfg) (PATH cfg) (FRACTION cfg) (BATCH_SIZE cfg) of
             Inl err \<Rightarrow> (Raise err, [])
           | Inr batches \<Rightarrow>
               (let sent = [Print (''status: number of batches - '' @ str_nat (length batches))] @
                           send_data batches ''tasks''
                in case retrieve_batches ''results'' (int (length batches)) 1 240 start trace of
                     (Polling got, polled) \<Rightarrow> (Waiting, sent @ polled)
                   | (Returned processed_batches, polled) \<Rightarrow>
                       (let events = sent @ polled @ [Connection_close]
                        in if length processed_batches = 0 then
                             (Exit 1, events @ [Print ''error: failed to retrieve processed data''])
                           else
                             (case report_missing batches
                                     (missing_batches batches processed_batches) of
                                (Some out, reported) \<Rightarrow> (out, events @ reported)
                              | (None, reported) \<Rightarrow>
                                  (let (out, rest) = aggregate lib plot cfg processed_batches
                                   in (out, events @ reported @ rest)))))))"

section \<open>A small configuration for concrete runs\<close>

text \<open>
  One sample with one subsample of 200 entries and batches of 100 entries, so that two
  batches are dispatched; arrays are lists of numbers, concatenated in order.
\<close>

definition demo_cfg :: config where
  "demo_cfg = \<lparr>SAMPLES = [(''data'', [''data_A''])], PATH = ''x/'', FRACTION = 1, BATCH_SIZE = 100\<rparr>"

definition demo_env :: env where
  "demo_env = \<lparr>uuid4 = (\<lambda>i. ''id-'' @ str_nat i), DSID = (\<lambda>s. None), num_entries = (\<lambda>p. Some 200)\<rparr>"

definition demo_lib :: "nat list awkward" where
  "demo_lib = \<lparr>concatenate = (\<lambda>arrays. if arrays = [] then Inl ValueError
                                        else Inr (concat (map (case_option [] id) arrays))),
               len = length\<rparr>"

definition demo_plot :: "(string \<times> nat list) list \<Rightarrow> string \<Rightarrow> py_error option" where
  "demo_plot samples_data filename = None"



text \<open>The two batches of the small configuration, and a batch after processing.\<close>

definition demo_batch0 :: "nat list DataBatch" where
  "demo_batch0 = new_DataBatch ''id-0'' ''data'' ''data_A'' ''measured''
                   ''x/Data/data_A.4lep.root'' (1 / 2) 0 100"

definition demo_batch1 :: "nat list DataBatch" where
  "demo_batch1 = new_DataBatch ''id-1'' ''data'' ''data_A'' ''measured''
                   ''x/Data/data_A.4lep.root'' (1 / 2) 100 200"

definition processed :: "'a DataBatch \<Rightarrow> 'a \<Rightarrow> 'a DataBatch" where
  "processed batch arr = batch\<lparr>processed_data := Some arr\<rparr>"

text \<open>
  For stating what the loop over the samples does: the number of entries of a sample's
  array in \<open>samples_data\<close>, and the low-population warnings of a list of samples.
\<close>

definition entries :: "'a awkward \<Rightarrow> (string \<times> 'a) list \<Rightarrow> string \<Rightarrow> nat" where
  "entries lib samples_data smp =
     (case map_of samples_data smp of None \<Rightarrow> 0 | Some arr \<Rightarrow> len lib arr)"

definition low_warnings :: "'a awkward \<Rightarrow> (string \<times> 'a) list \<Rightarrow> string list \<Rightarrow> 'm event list" where
  "low_warnings lib samples_data samples =
     concat (map (\<lambda>smp. if entries lib samples_data smp < 50
                        then [Print (''warning: less than 50 events for sample - '' @ smp)]
                        else []) samples)"

text \<open>
  Three samples, each with one retrieved batch: one with 60 entries, one with 10 entries
  and one whose array has no entry.
\<close>

definition demo_cfg3 :: config where
  "demo_cfg3 = \<lparr>SAMPLES = [(''data'', [''data_A'']), (''signal'', [''ZH'']), (''noise'', [''Zee''])],
                 PATH = ''x/'', FRACTION = 1, BATCH_SIZE = 100\<rparr>"

definition demo_processed3 :: "nat list DataBatch list" where
  "demo_processed3 =
     [processed (new_DataBatch ''id-0'' ''data'' ''data_A'' ''measured'' ''x/a'' 1 0 100)
        (replicate 60 0),
      processed (new_DataBatch ''id-1'' ''signal'' ''ZH'' ''monte-carlo'' ''x/b'' 1 0 100)
        (replicate 10 0),
      processed (new_DataBatch ''id-2'' ''noise'' ''Zee'' ''monte-carlo'' ''x/c'' 1 0 100) []]"

text \<open>
  A run on a thousandth of the data: the measured file has 100000 entries, of which 100
  are batched into one batch; the simulated file has 300 entries, of which
  \<open>round 0.3 = 0\<close> are batched, so the sample \<open>signal\<close> gets no batch.
\<close>

definition sparse_cfg :: config where
  "sparse_cfg = \<lparr>SAMPLES = [(''data'', [''data_A'']), (''signal'', [''ZH''])],
                  PATH = ''x/'', FRACTION = 1 / 1000, BATCH_SIZE = 100\<rparr>"

definition sparse_env :: env where
  "sparse_env =
     \<lparr>uuid4 = (\<lambda>i. ''id-'' @ str_nat i), DSID = (\<lambda>s. Some ''345060''),
      num_entries = (\<lambda>p. if p = ''x/Data/data_A.4lep.root:mini'' then Some 100000
                          else Some 300)\<rparr>"

definition sparse_batch :: "nat list DataBatch" where
  "sparse_batch = new_DataBatch ''id-0'' ''data'' ''data_A'' ''measured''
                    ''x/Data/data_A.4lep.root'' 1 0 100"

section \<open>The worker (worker/higgs_worker.py)\<close>

text \<open>
  What the tasks queue hands to the worker: one entry per poll, \<open>None\<close> when the queue
  had no message, otherwise the delivery tag, the un-pickled batch, and what
  \<open>process_data\<close> does with it on this delivery: it returns the processed batch, or
  raises an exception of class \<open>Exception\<close> whose \<open>str\<close> is the given text.
\<close>

type_synonym 'a delivery = "(nat \<times> 'a DataBatch \<times> (string + 'a DataBatch)) option"

datatype 'a fetched = Got nat "'a DataBatch" "string + 'a DataBatch" | No_task | Pending

text \<open>
  \<open>retrieve_batch\<close>: up to \<open>retries\<close> polls without acknowledgement, with a sleep
  after each empty one. The result comes with the events and the rest of the trace;
  \<open>Pending\<close> is the state of a loop that is still polling when the trace ends.
\<close>

fun retrieve_batch ::
  "string \<Rightarrow> int \<Rightarrow> real \<Rightarrow> int \<Rightarrow> 'a delivery list \<Rightarrow>
   'a fetched \<times> 'a DataBatch event list \<times> 'a delivery list" where
  "retrieve_batch queue_name retries wait_time attempts [] =
     (if attempts < retries then (Pending, [], []) else (No_task, [], []))"
| "retrieve_batch queue_name retries wait_time attempts (response # rest) =
     (if attempts < retries then
        (case response of
           Some (delivery_tag, batch, result) \<Rightarrow>
             (Got delivery_tag batch result, [Basic_get queue_name (Some batch)], rest)
         | None \<Rightarrow>
             (let (r, events, rest') =
                    retrieve_batch queue_name retries wait_time (attempts + 1) rest
              in (r, [Basic_get queue_name None, Sleep wait_time] @ events, rest')))
      else (No_task, [], response # rest))"

text \<open>
  The \<open>try\<close> statement of the worker's loop for one task: the processed batch is sent
  to the results queue and the task is acknowledged, or the exception is printed and the
  task is rejected with \<open>requeue=True\<close>. The calls on the channel are taken not to
  raise.
\<close>

definition handle_task :: "nat \<Rightarrow> string + 'a DataBatch \<Rightarrow> 'a DataBatch event list" where
  "handle_task message_tag result =
     (case result of
        Inr processed_batch \<Rightarrow> send_data [processed_batch] ''results'' @ [Basic_ack message_tag]
      | Inl e \<Rightarrow> [Print (''error: failed to process batch '' @ e), Basic_nack message_tag True])"

text \<open>The \<open>while True\<close> loop of the worker's \<open>main\<close>.\<close>

function worker_loop :: "'a delivery list \<Rightarrow> outcome \<times> 'a DataBatch event list" where
  "worker_loop trace =
     (case retrieve_batch ''tasks'' 12 5 0 trace of
        (Pending, events, rest) \<Rightarrow> (Waiting, events)
      | (No_task, events, rest) \<Rightarrow>
          (Exit 0, events @ [Channel_close, Connection_close, Print ''exiting: no tasks in queue''])
      | (Got message_tag batch result, events, rest) \<Rightarrow>
          (let (out, later) = worker_loop rest
           in (out, events @ handle_task message_tag result @ later)))"
  by pat_completeness auto
termination
proof -
  have shorter: "length rest < length trace"
    if "retrieve_batch queue_name retries wait_time attempts trace =
          (Got tag batch result, events, rest)"
    for queue_name retries wait_time attempts tag events
      and trace rest :: "'a delivery list" and batch :: "'a DataBatch" and result
    using that
  proof (induction trace arbitrary: attempts events)
    case Nil
    then show ?case by (simp split: if_splits)
  next
    case (Cons response trace)
    then show ?case
      by (cases response) (fastforce split: if_splits prod.splits)+
  qed
  show ?thesis
    by (relation "measure length") (auto dest: shorter [OF sym])
qed

definition worker_main :: "'c option \<Rightarrow> 'a delivery list \<Rightarrow> outcome \<times> 'a DataBatch event list" where
  "worker_main connection trace =
     (case connection of
        None \<Rightarrow> (Exit 1, [Print ''error: RabbitMQ connection failed''])
      | Some c \<Rightarrow>
          (let (out, events) = worker_loop trace
           in (out, [Channel_open, Queue_declare ''tasks''] @ events)))"

text \<open>
  The property that a failure is logged with the unit's identity, as a test on the events:
  some printed line contains the given identifier.
\<close>

definition mentions :: "string \<Rightarrow> 'm event list \<Rightarrow> bool" where
  "mentions ident events =
     list_ex (\<lambda>ev. case ev of Print line \<Rightarrow> sublist ident line | _ \<Rightarrow> False) events"

section \<open>Properties of the reconciler\<close>

lemma fold_update_keys:
  "fst ` set (fold (\<lambda>batch m. AList.update (batch_id batch) batch m) bs init) =
     fst ` set init \<union> set (map batch_id bs)"
  by (induction bs arbitrary: init) (auto simp: AList.dom_update)

lemma fold_update_distinct:
  "distinct (map fst init) \<Longrightarrow>
   distinct (map fst (fold (\<lambda>batch m. AList.update (batch_id batch) batch m) bs init))"
  by (induction bs arbitrary: init) (auto simp: AList.distinct_update)

lemma fold_update_values:
  assumes "\<And>k b. map_of init k = Some b \<Longrightarrow> batch_id b = k"
    and "map_of (fold (\<lambda>batch m. AList.update (batch_id batch) batch m) bs init) k = Some b"
  shows "batch_id b = k"
  using assms
proof (induction bs arbitrary: init)
  case Nil
  then show ?case by simp
next
  case (Cons x xs)
  show ?case
  proof (rule Cons.IH)
    fix k' b'
    assume "map_of (AList.update (batch_id x) x init) k' = Some b'"
    then show "batch_id b' = k'"
      using Cons.prems(1) [of k' b'] by (simp add: AList.update_conv' split: if_splits)
  next
    show "map_of (fold (\<lambda>batch m. AList.update (batch_id batch) batch m) xs
            (AList.update (batch_id x) x init)) k = Some b"
      using Cons.prems(2) by simp
  qed
qed

lemma expected_map_keys:
  "set (map fst (expected_batches_map bs)) = batch_id_set bs"
  using fold_update_keys [of bs "[]"]
  by (simp add: expected_batches_map_def batch_id_set_def)

lemma expected_map_distinct: "distinct (map fst (expected_batches_map bs))"
  using fold_update_distinct [of "[]" bs] by (simp add: expected_batches_map_def)

lemma expected_map_value:
  "map_of (expected_batches_map bs) k = Some b \<Longrightarrow> batch_id b = k"
  by (rule fold_update_values [where init = "[]" and bs = bs]) (simp_all add: expected_batches_map_def)

lemma expected_map_defined:
  "k \<in> set (map fst (expected_batches_map bs)) \<Longrightarrow>
   \<exists>b. map_of (expected_batches_map bs) k = Some b \<and> batch_id b = k"
proof -
  assume k: "k \<in> set (map fst (expected_batches_map bs))"
  then have "map_of (expected_batches_map bs) k \<noteq> None"
    by (simp add: map_of_eq_None_iff)
  then obtain b where b: "map_of (expected_batches_map bs) k = Some b"
    by blast
  with expected_map_value [OF b] show ?thesis by simp
qed

lemma missing_ids_of_lookup:
  "set ks \<subseteq> set (map fst (expected_batches_map bs)) \<Longrightarrow>
   map batch_id (map (\<lambda>k. the (map_of (expected_batches_map bs) k)) ks) = ks"
proof (induction ks)
  case Nil
  then show ?case by simp
next
  case (Cons k ks)
  from Cons.prems have "k \<in> set (map fst (expected_batches_map bs))" by simp
  from expected_map_defined [OF this] have "batch_id (the (map_of (expected_batches_map bs) k)) = k"
    by auto
  with Cons show ?case by simp
qed

lemma missing_batches_ids:
  "missing_batches E R = Some ms \<Longrightarrow>
   map batch_id ms = filter (\<lambda>k. k \<notin> batch_id_set R) (map fst (expected_batches_map E))"
proof -
  assume a: "missing_batches E R = Some ms"
  let ?ks = "filter (\<lambda>k. k \<notin> batch_id_set R) (map fst (expected_batches_map E))"
  from a have ms: "ms = map (\<lambda>k. the (map_of (expected_batches_map E) k)) ?ks"
    by (simp add: missing_batches_def Let_def split: if_splits)
  have "set ?ks \<subseteq> set (map fst (expected_batches_map E))" by auto
  from missing_ids_of_lookup [OF this] ms show ?thesis by simp
qed

lemma missing_batches_None:
  "missing_batches E R = None \<longleftrightarrow> batch_id_set E \<subseteq> batch_id_set R"
proof -
  have "missing_batches E R = None \<longleftrightarrow>
        filter (\<lambda>k. k \<notin> batch_id_set R) (map fst (expected_batches_map E)) = []"
    by (simp add: missing_batches_def Let_def)
  also have "\<dots> \<longleftrightarrow> set (map fst (expected_batches_map E)) \<subseteq> batch_id_set R"
    by (auto simp: filter_empty_conv)
  finally show ?thesis by (simp only: expected_map_keys)
qed

lemma update_member:
  "(k', b') \<in> set (AList.update k v al) \<Longrightarrow> (k', b') \<in> set al \<or> (k' = k \<and> b' = v)"
  by (induction al) (auto split: if_splits)

lemma fold_update_members:
  "(k, b) \<in> set (fold (\<lambda>batch m. AList.update (batch_id batch) batch m) bs init) \<Longrightarrow>
   (k, b) \<in> set init \<or> b \<in> set bs"
proof (induction bs arbitrary: init)
  case Nil
  then show ?case by simp
next
  case (Cons x xs)
  from Cons.IH [of "AList.update (batch_id x) x init"] Cons.prems
  have "(k, b) \<in> set (AList.update (batch_id x) x init) \<or> b \<in> set xs" by simp
  then show ?case using update_member [of k b "batch_id x" x init] by auto
qed

lemma missing_batches_members:
  assumes "missing_batches E R = Some ms"
  shows "set ms \<subseteq> set E"
proof
  fix b
  assume b: "b \<in> set ms"
  let ?m = "expected_batches_map E"
  from assms have "ms = map (\<lambda>k. the (map_of ?m k))
                     (filter (\<lambda>k. k \<notin> batch_id_set R) (map fst ?m))"
    by (simp add: missing_batches_def Let_def split: if_splits)
  with b obtain k where k: "k \<in> set (map fst ?m)" and bk: "b = the (map_of ?m k)"
    by auto
  from expected_map_defined [OF k] bk have "map_of ?m k = Some b" by auto
  then have "(k, b) \<in> set ?m" by (rule map_of_SomeD)
  then show "b \<in> set E"
    using fold_update_members [of k b E "[]"] by (simp add: expected_batches_map_def)
qed

text \<open>
  C3, as stated: \<open>missing_batches\<close> returns \<open>None\<close> if and only if the retrieved
  identifiers equal the expected ones. It fails when the results queue delivered a batch
  that was never dispatched: nothing is missing, yet the two sets of identifiers differ.
\<close>

theorem missing_batches_iff_equal_counterexample:
  "\<not> ((missing_batches [demo_batch ''id-1'' ''data''] 
          [demo_batch ''id-1'' ''data'', demo_batch ''id-2'' ''data''] = None) =
       (batch_id_set [demo_batch ''id-1'' ''data'', demo_batch ''id-2'' ''data''] =
        batch_id_set [demo_batch ''id-1'' ''data'']))"
  by (simp add: missing_batches_def expected_batches_map_def batch_id_set_def
      demo_batch_def new_DataBatch_def)

text \<open>
  C3, amended: \<open>missing_batches\<close> returns \<open>None\<close> if and only if every expected
  identifier is among the retrieved ones; otherwise the identifiers of the returned
  batches are exactly the expected identifiers minus the retrieved ones, each once, and
  the returned batches are batches of the expected list.
\<close>

theorem missing_batches_reconciles:
  "(missing_batches E R = None \<longleftrightarrow> batch_id_set E \<subseteq> batch_id_set R) \<and>
   (\<forall>ms. missing_batches E R = Some ms \<longrightarrow>
      batch_id_set ms = batch_id_set E - batch_id_set R \<and>
      distinct (map batch_id ms) \<and> set ms \<subseteq> set E)"
proof (intro conjI allI impI)
  show "missing_batches E R = None \<longleftrightarrow> batch_id_set E \<subseteq> batch_id_set R"
    by (rule missing_batches_None)
next
  fix ms
  assume a: "missing_batches E R = Some ms"
  note ids = missing_batches_ids [OF a]
  have "batch_id_set ms = set (map fst (expected_batches_map E)) - batch_id_set R"
    unfolding batch_id_set_def [of ms] ids by auto
  then show "batch_id_set ms = batch_id_set E - batch_id_set R"
    by (simp only: expected_map_keys)
  show "distinct (map batch_id ms)"
    unfolding ids by (rule distinct_filter) (rule expected_map_distinct)
  show "set ms \<subseteq> set E"
    by (rule missing_batches_members [OF a])
qed

theorem missing_batches_reconciles_witness:
  "missing_batches [demo_batch ''id-1'' ''data'', demo_batch ''id-2'' ''data'']
     [demo_batch ''id-1'' ''data''] = Some [demo_batch ''id-2'' ''data''] \<and>
   batch_id_set [demo_batch ''id-2'' ''data''] =
     batch_id_set [demo_batch ''id-1'' ''data'', demo_batch ''id-2'' ''data''] -
     batch_id_set [demo_batch ''id-1'' ''data'']"
proof -
  have h: "missing_batches [demo_batch ''id-1'' ''data'', demo_batch ''id-2'' ''data'']
     [demo_batch ''id-1'' ''data''] = Some [demo_batch ''id-2'' ''data'']"
    by (simp add: missing_batches_def expected_batches_map_def batch_id_set_def
        demo_batch_def new_DataBatch_def)
  from missing_batches_reconciles
    [of "[demo_batch ''id-1'' ''data'', demo_batch ''id-2'' ''data'']"
        "[demo_batch ''id-1'' ''data'']"] h
  show ?thesis by blast
qed

section \<open>Properties of the collector\<close>

text \<open>
  C9: with \<open>num_batches = 0\<close> the collector returns the empty list at once: it opens
  the channel, declares the queue and closes the channel, without any poll, clock test
  or sleep, whatever the transport holds.
\<close>

theorem retrieve_batches_zero:
  "retrieve_batches queue_name 0 wait_time terminate_time start trace =
     (Returned [], [Channel_open, Queue_declare queue_name, Channel_close])"
  by (cases trace) (auto simp: retrieve_batches_def)

lemma poll_loop_length:
  "int (length batches) \<le> num_batches \<Longrightarrow>
   int (length (batches_of (fst (poll_loop queue_name num_batches wait_time terminate_time
          start batches trace)))) \<le> num_batches"
proof (induction trace arbitrary: batches)
  case Nil
  then show ?case by simp
next
  case (Cons p rest)
  obtain response now where p: "p = (response, now)" by (cases p)
  let ?b = "case response of None \<Rightarrow> batches | Some m \<Rightarrow> batches @ [m]"
  show ?case
  proof (cases "int (length batches) = num_batches")
    case True
    then show ?thesis by (simp add: p)
  next
    case False
    with Cons.prems have "int (length ?b) \<le> num_batches"
      by (cases response) auto
    from Cons.IH [OF this] this False show ?thesis
      by (auto simp: p Let_def split: prod.splits)
  qed
qed

text \<open>
  C10: for \<open>num_batches \<ge> 0\<close> and every trace of the transport, the list accumulated by
  the polling loop has at most \<open>num_batches\<close> entries, both when the function has
  returned and at the head of the loop after any number of polls (the trace may end
  anywhere, leaving the loop in state \<open>Polling\<close>), also when the queue delivers
  duplicates or more messages than expected.
\<close>

theorem retrieve_batches_length_le:
  "0 \<le> num_batches \<Longrightarrow>
   int (length (batches_of (fst (retrieve_batches queue_name num_batches wait_time
          terminate_time start trace)))) \<le> num_batches"
  using poll_loop_length [of "[]" num_batches queue_name wait_time terminate_time start trace]
  by (auto simp: retrieve_batches_def split: prod.splits)

theorem retrieve_batches_length_le_witness:
  "(0::int) \<le> 1 \<and>
   int (length (batches_of (fst (retrieve_batches ''results'' 1 1 240 0
          [(Some (demo_batch ''id-1'' ''data''), 0), (Some (demo_batch ''id-1'' ''data''), 1),
           (Some (demo_batch ''id-2'' ''data''), 2)])))) \<le> 1"
  using retrieve_batches_length_le [of 1 "''results''" 1 240 0
          "[(Some (demo_batch ''id-1'' ''data''), 0), (Some (demo_batch ''id-1'' ''data''), 1),
            (Some (demo_batch ''id-2'' ''data''), 2)]"]
  by simp

















section \<open>Properties of the partitioner\<close>

















lemma data_batcher_single:
  "data_batcher e [(smp, [sub])] root_path fr B = batch_subsample e smp sub root_path fr B []"
  by (simp add: data_batcher_def split: sum.splits)












section \<open>Properties of the manager\<close>

lemma demo_batches:
  "data_batcher demo_env (SAMPLES demo_cfg) (PATH demo_cfg) (FRACTION demo_cfg) (BATCH_SIZE demo_cfg)
     = Inr [demo_batch0, demo_batch1]"
  by (simp add: data_batcher_def demo_env_def demo_cfg_def batch_subsample_def
      subsample_source_def num_events_of_def py_round_def batch_range_def py_range.simps
      str_nat.simps demo_batch0_def demo_batch1_def new_DataBatch_def)

lemma demo_missing:
  "missing_batches [demo_batch0, demo_batch1] [processed demo_batch0 (replicate 60 0)] =
     Some [demo_batch1]"
  by (simp add: missing_batches_def expected_batches_map_def batch_id_set_def
      demo_batch0_def demo_batch1_def new_DataBatch_def processed_def)

lemma demo_complete:
  "missing_batches [demo_batch0, demo_batch1]
     [processed demo_batch0 (replicate 60 0), processed demo_batch1 (replicate 60 0)] = None"
  by (simp add: missing_batches_def expected_batches_map_def batch_id_set_def
      demo_batch0_def demo_batch1_def new_DataBatch_def processed_def)

lemma demo_aggregate:
  "aggregate demo_lib demo_plot demo_cfg
     [processed demo_batch0 (replicate 60 0), processed demo_batch1 (replicate 60 0)] =
   (Return, [Print ''success: figure created''])"
  by (simp add: aggregate_def group_batches_def ak_concatenate_def demo_cfg_def demo_lib_def
      demo_plot_def sample_arrays_def demo_batch0_def demo_batch1_def new_DataBatch_def
      processed_def)

lemma demo_success:
  "main demo_cfg demo_lib demo_plot (Some ()) demo_env 0
     [(Some (processed demo_batch0 (replicate 60 0)), 0),
      (Some (processed demo_batch1 (replicate 60 0)), 1)] =
   (Return,
    [Print ''status: number of batches - 2'',
     Channel_open, Queue_declare ''tasks'', Basic_publish ''tasks'' demo_batch0,
     Basic_publish ''tasks'' demo_batch1, Channel_close,
     Channel_open, Queue_declare ''results'',
     Basic_get ''results'' (Some (processed demo_batch0 (replicate 60 0))), Time_check 0, Sleep 1,
     Basic_get ''results'' (Some (processed demo_batch1 (replicate 60 0))), Time_check 1, Sleep 1,
     Channel_close,
     Connection_close,
     Print ''success: figure created''])"
  by (simp add: main_def demo_batches retrieve_batches_def send_data_def
      str_nat.simps report_missing_def demo_complete demo_aggregate)

lemma demo_no_results:
  "main demo_cfg demo_lib demo_plot (Some ()) demo_env 0 [(None, 241)] =
   (Exit 1,
    [Print ''status: number of batches - 2'',
     Channel_open, Queue_declare ''tasks'', Basic_publish ''tasks'' demo_batch0,
     Basic_publish ''tasks'' demo_batch1, Channel_close,
     Channel_open, Queue_declare ''results'',
     Basic_get ''results'' None, Time_check 241, Channel_close,
     Connection_close,
     Print ''error: failed to retrieve processed data''])"
  by (simp add: main_def demo_batches retrieve_batches_def send_data_def str_nat.simps)

lemma demo_no_connection:
  "main demo_cfg demo_lib demo_plot (None :: unit option) demo_env 0 [(None, 241)] =
   (Exit 1, [Print ''error: RabbitMQ connection failed''])"
  by (simp add: main_def)

text \<open>
  C2: a run with two batches dispatched and one retrieved, so that one batch (not more
  than half) is missing. The manager prints the first warning and ends with an uncaught
  \<open>TypeError\<close>: it prints no missing batch, no second warning, and does not reach the
  grouping.
\<close>

theorem main_missing_below_half_raises:
  "main demo_cfg demo_lib demo_plot (Some ()) demo_env 0
     [(Some (processed demo_batch0 (replicate 60 0)), 0), (None, 241)] =
   (Raise TypeError,
    [Print ''status: number of batches - 2'',
     Channel_open, Queue_declare ''tasks'', Basic_publish ''tasks'' demo_batch0,
     Basic_publish ''tasks'' demo_batch1, Channel_close,
     Channel_open, Queue_declare ''results'',
     Basic_get ''results'' (Some (processed demo_batch0 (replicate 60 0))), Time_check 0, Sleep 1,
     Basic_get ''results'' None, Time_check 241, Channel_close,
     Connection_close,
     Print ''warning: missing the following batches of data''])"
  by (simp add: main_def demo_batches demo_missing retrieve_batches_def send_data_def
      str_nat.simps report_missing_def)

text \<open>
  C6, as stated: the exit codes of the connection-failure path and of the
  zero-results path are distinct. Both runs below end in \<open>sys.exit(1)\<close>.
\<close>

theorem main_exit_codes_distinct_counterexample:
  "\<not> (exit_code (fst (main demo_cfg demo_lib demo_plot (None :: unit option) demo_env 0
                        [(None, 241)])) \<noteq>
       exit_code (fst (main demo_cfg demo_lib demo_plot (Some ()) demo_env 0 [(None, 241)])))"
  by (simp add: demo_no_connection demo_no_results)

lemma check_samples_exit:
  "check_samples lib samples_data samples = (Some (Exit n), events) \<Longrightarrow> n = 1"
proof (induction samples arbitrary: events)
  case Nil
  then show ?case by simp
next
  case (Cons smp samples)
  then show ?case
    by (auto split: option.splits if_splits prod.splits)
qed

lemma check_samples_outcome:
  "check_samples lib samples_data samples = (Some out, events) \<Longrightarrow>
   out = Exit 1 \<or> out = Raise KeyError"
proof (induction samples arbitrary: events)
  case Nil
  then show ?case by simp
next
  case (Cons smp samples)
  then show ?case
    by (auto split: option.splits if_splits prod.splits)
qed

lemma aggregate_exit:
  "aggregate lib plot cfg processed_batches = (Exit n, events) \<Longrightarrow> n = 1"
  by (auto simp: aggregate_def split: sum.splits prod.splits option.splits
      dest: check_samples_exit)

lemma report_missing_exit:
  "report_missing batches missing = (Some (Exit n), events) \<Longrightarrow> n = 1"
  by (auto simp: report_missing_def split: option.splits if_splits)

lemma main_exit:
  "fst (main cfg lib plot connection e start trace) = Exit n \<Longrightarrow> n = 1"
  unfolding main_def Let_def
  by (auto split: option.splits sum.splits prod.splits collected.splits if_splits
      dest: report_missing_exit aggregate_exit)


lemma aggregate_return:
  "aggregate lib plot cfg got = (Return, rest) \<Longrightarrow>
   rest \<noteq> [] \<and> last rest = Print ''success: figure created''"
  unfolding aggregate_def
  by (auto split: sum.splits prod.splits option.splits dest: check_samples_outcome)

lemma main_return:
  assumes "fst (main cfg lib plot connection e start trace) = Return"
  shows "last (snd (main cfg lib plot connection e start trace)) =
     Print ''success: figure created''"
proof -
  from assms obtain c where c: "connection = Some c"
    by (cases connection) (simp_all add: main_def)
  from assms c obtain batches :: "'a DataBatch list"
    where b: "data_batcher e (SAMPLES cfg) (PATH cfg) (FRACTION cfg) (BATCH_SIZE cfg) = Inr batches"
    by (cases "data_batcher e (SAMPLES cfg) (PATH cfg) (FRACTION cfg) (BATCH_SIZE cfg)
          :: py_error + 'a DataBatch list") (simp_all add: main_def)
  obtain r polled where p: "retrieve_batches ''results'' (int (length batches)) 1 240 start trace
      = (r, polled)" by (cases "retrieve_batches ''results'' (int (length batches)) 1 240 start trace")
  from assms c b p obtain got where g: "r = Returned got"
    by (cases r) (simp_all add: main_def)
  from assms c b p g have ne: "got \<noteq> []"
    by (auto simp: main_def)
  obtain out and reported :: "'a DataBatch event list"
    where rm: "report_missing batches (missing_batches batches got) = (out, reported)"
    by (cases "report_missing batches (missing_batches batches got)
          :: outcome option \<times> 'a DataBatch event list")
  from assms c b p g ne rm have o: "out = None"
    by (cases out) (auto simp: main_def report_missing_def split: option.splits if_splits)
  obtain fin and rest :: "'a DataBatch event list"
    where ag: "aggregate lib plot cfg got = (fin, rest)"
    by (cases "aggregate lib plot cfg got :: outcome \<times> 'a DataBatch event list")
  from assms c b p g ne rm o ag have "fin = Return"
    by (simp add: main_def)
  with ag aggregate_return [of lib plot cfg got rest]
  have "rest \<noteq> []" and "last rest = Print ''success: figure created''" by simp_all
  with c b p g ne rm o ag show ?thesis
    by (simp add: main_def)
qed

text \<open>
  C6, amended: every \<open>sys.exit\<close> of the manager has code 1. The connection failure,
  the zero-results failure and the failure for more than half of the batches missing all
  exit with 1 and differ in the printed error line only; a run that returns normally
  (exit code 0) ends with the success line.
\<close>

theorem main_exit_codes:
  "(\<forall>n. fst (main cfg (lib :: 'a awkward) plot connection e start trace) = Exit n \<longrightarrow> n = 1) \<and>
   (connection = None \<longrightarrow>
      main cfg lib plot connection e start trace =
        (Exit 1, [Print ''error: RabbitMQ connection failed''])) \<and>
   (\<forall>c (batches :: 'a DataBatch list) polled.
      connection = Some c \<and>
      data_batcher e (SAMPLES cfg) (PATH cfg) (FRACTION cfg) (BATCH_SIZE cfg) = Inr batches \<and>
      retrieve_batches ''results'' (int (length batches)) 1 240 start trace = (Returned [], polled)
      \<longrightarrow> fst (main cfg lib plot connection e start trace) = Exit 1 \<and>
          last (snd (main cfg lib plot connection e start trace)) =
            Print ''error: failed to retrieve processed data'') \<and>
   (\<forall>c (batches :: 'a DataBatch list) got polled missing.
      connection = Some c \<and>
      data_batcher e (SAMPLES cfg) (PATH cfg) (FRACTION cfg) (BATCH_SIZE cfg) = Inr batches \<and>
      retrieve_batches ''results'' (int (length batches)) 1 240 start trace = (Returned got, polled) \<and>
      got \<noteq> [] \<and> missing_batches batches got = Some missing \<and>
      length batches div 2 < length missing
      \<longrightarrow> fst (main cfg lib plot connection e start trace) = Exit 1 \<and>
          last (snd (main cfg lib plot connection e start trace)) =
            Print ''error: missing more than 50% of the expected data'') \<and>
   (fst (main cfg lib plot connection e start trace) = Return \<longrightarrow>
      exit_code (fst (main cfg lib plot connection e start trace)) = Some 0 \<and>
      last (snd (main cfg lib plot connection e start trace)) = Print ''success: figure created'')"
proof (intro conjI allI impI)
  fix n
  assume "fst (main cfg lib plot connection e start trace) = Exit n"
  then show "n = 1" by (rule main_exit)
next
  assume "connection = None"
  then show "main cfg lib plot connection e start trace =
        (Exit 1, [Print ''error: RabbitMQ connection failed''])"
    by (simp add: main_def)
next
  fix c and batches :: "'a DataBatch list" and polled
  assume a: "connection = Some c \<and>
      data_batcher e (SAMPLES cfg) (PATH cfg) (FRACTION cfg) (BATCH_SIZE cfg) = Inr batches \<and>
      retrieve_batches ''results'' (int (length batches)) 1 240 start trace = (Returned [], polled)"
  then have m: "main cfg lib plot connection e start trace =
      (Exit 1, ([Print (''status: number of batches - '' @ str_nat (length batches))] @
                send_data batches ''tasks'') @ polled @ [Connection_close] @
               [Print ''error: failed to retrieve processed data''])"
    by (simp add: main_def)
  show "fst (main cfg lib plot connection e start trace) = Exit 1" by (simp add: m)
  show "last (snd (main cfg lib plot connection e start trace)) =
            Print ''error: failed to retrieve processed data''" by (simp add: m)
next
  fix c and batches :: "'a DataBatch list" and got polled missing
  assume a: "connection = Some c \<and>
      data_batcher e (SAMPLES cfg) (PATH cfg) (FRACTION cfg) (BATCH_SIZE cfg) = Inr batches \<and>
      retrieve_batches ''results'' (int (length batches)) 1 240 start trace = (Returned got, polled) \<and>
      got \<noteq> [] \<and> missing_batches batches got = Some missing \<and>
      length batches div 2 < length missing"
  then have m: "main cfg lib plot connection e start trace =
      (Exit 1, ([Print (''status: number of batches - '' @ str_nat (length batches))] @
                send_data batches ''tasks'') @ polled @ [Connection_close] @
               [Print ''error: missing more than 50% of the expected data''])"
    by (simp add: main_def report_missing_def)
  show "fst (main cfg lib plot connection e start trace) = Exit 1" by (simp add: m)
  show "last (snd (main cfg lib plot connection e start trace)) =
            Print ''error: missing more than 50% of the expected data''" by (simp add: m)
next
  assume r: "fst (main cfg lib plot connection e start trace) = Return"
  then show "exit_code (fst (main cfg lib plot connection e start trace)) = Some 0" by simp
  from main_return [OF r]
  show "last (snd (main cfg lib plot connection e start trace)) =
      Print ''success: figure created''" .
qed


lemma demo_excessive:
  "missing_batches [demo_batch0, demo_batch1] [processed (demo_batch0\<lparr>batch_id := ''id-9''\<rparr>) []] =
     Some [demo_batch0, demo_batch1]"
  by (simp add: missing_batches_def expected_batches_map_def batch_id_set_def
      demo_batch0_def demo_batch1_def new_DataBatch_def processed_def)

theorem main_exit_codes_witness:
  "main demo_cfg demo_lib demo_plot (None :: unit option) demo_env 0 [(None, 241)] =
     (Exit 1, [Print ''error: RabbitMQ connection failed'']) \<and>
   fst (main demo_cfg demo_lib demo_plot (Some ()) demo_env 0 [(None, 241)]) = Exit 1 \<and>
   last (snd (main demo_cfg demo_lib demo_plot (Some ()) demo_env 0 [(None, 241)])) =
     Print ''error: failed to retrieve processed data'' \<and>
   fst (main demo_cfg demo_lib demo_plot (Some ()) demo_env 0
     [(Some (processed (demo_batch0\<lparr>batch_id := ''id-9''\<rparr>) []), 0), (None, 241)]) = Exit 1 \<and>
   last (snd (main demo_cfg demo_lib demo_plot (Some ()) demo_env 0
     [(Some (processed (demo_batch0\<lparr>batch_id := ''id-9''\<rparr>) []), 0), (None, 241)])) =
     Print ''error: missing more than 50% of the expected data'' \<and>
   exit_code (fst (main demo_cfg demo_lib demo_plot (Some ()) demo_env 0
     [(Some (processed demo_batch0 (replicate 60 0)), 0),
      (Some (processed demo_batch1 (replicate 60 0)), 1)])) = Some 0 \<and>
   last (snd (main demo_cfg demo_lib demo_plot (Some ()) demo_env 0
     [(Some (processed demo_batch0 (replicate 60 0)), 0),
      (Some (processed demo_batch1 (replicate 60 0)), 1)])) = Print ''success: figure created''"
proof -
  have w1: "main demo_cfg demo_lib demo_plot (None :: unit option) demo_env 0 [(None, 241)] =
     (Exit 1, [Print ''error: RabbitMQ connection failed''])"
    using main_exit_codes [of demo_cfg demo_lib demo_plot "None :: unit option" demo_env 0
        "[(None, 241)]"]
    by simp
  have h2: "Some () = Some () \<and>
      data_batcher demo_env (SAMPLES demo_cfg) (PATH demo_cfg) (FRACTION demo_cfg)
        (BATCH_SIZE demo_cfg) = Inr [demo_batch0, demo_batch1] \<and>
      retrieve_batches ''results'' (int (length [demo_batch0, demo_batch1])) 1 240 0 [(None, 241)] =
        (Returned [], [Channel_open, Queue_declare ''results'', Basic_get ''results'' None,
                       Time_check 241, Channel_close])"
    by (simp add: demo_batches retrieve_batches_def)
  note w2 = main_exit_codes [of demo_cfg demo_lib demo_plot "Some ()" demo_env 0 "[(None, 241)]",
      THEN conjunct2, THEN conjunct2, THEN conjunct1, rule_format, OF h2]
  have h3: "Some () = Some () \<and>
      data_batcher demo_env (SAMPLES demo_cfg) (PATH demo_cfg) (FRACTION demo_cfg)
        (BATCH_SIZE demo_cfg) = Inr [demo_batch0, demo_batch1] \<and>
      retrieve_batches ''results'' (int (length [demo_batch0, demo_batch1])) 1 240 0
        [(Some (processed (demo_batch0\<lparr>batch_id := ''id-9''\<rparr>) []), 0), (None, 241)] =
        (Returned [processed (demo_batch0\<lparr>batch_id := ''id-9''\<rparr>) []],
         [Channel_open, Queue_declare ''results'',
          Basic_get ''results'' (Some (processed (demo_batch0\<lparr>batch_id := ''id-9''\<rparr>) [])),
          Time_check 0, Sleep 1, Basic_get ''results'' None, Time_check 241, Channel_close]) \<and>
      [processed (demo_batch0\<lparr>batch_id := ''id-9''\<rparr>) []] \<noteq> [] \<and>
      missing_batches [demo_batch0, demo_batch1] [processed (demo_batch0\<lparr>batch_id := ''id-9''\<rparr>) []] =
        Some [demo_batch0, demo_batch1] \<and>
      length [demo_batch0, demo_batch1] div 2 < length [demo_batch0, demo_batch1]"
    by (simp add: demo_batches retrieve_batches_def demo_excessive)
  note w3 = main_exit_codes [of demo_cfg demo_lib demo_plot "Some ()" demo_env 0
      "[(Some (processed (demo_batch0\<lparr>batch_id := ''id-9''\<rparr>) []), 0), (None, 241)]",
      THEN conjunct2, THEN conjunct2, THEN conjunct2, THEN conjunct1, rule_format, OF h3]
  have h4: "fst (main demo_cfg demo_lib demo_plot (Some ()) demo_env 0
     [(Some (processed demo_batch0 (replicate 60 0)), 0),
      (Some (processed demo_batch1 (replicate 60 0)), 1)]) = Return"
    by (simp add: demo_success)
  note w4 = main_exit_codes [of demo_cfg demo_lib demo_plot "Some ()" demo_env 0
      "[(Some (processed demo_batch0 (replicate 60 0)), 0),
        (Some (processed demo_batch1 (replicate 60 0)), 1)]",
      THEN conjunct2, THEN conjunct2, THEN conjunct2, THEN conjunct2, rule_format, OF h4]
  from w1 w2 w3 w4 show ?thesis by blast
qed

lemma group_samples_lookup:
  "group_samples lib batches samples samples_data0 = Inr samples_data \<Longrightarrow>
   map_of samples_data smp =
     (if smp \<in> set samples
      then (case ak_concatenate lib (sample_arrays batches smp) of
              Inl err \<Rightarrow> None | Inr arr \<Rightarrow> Some arr)
      else map_of samples_data0 smp)"
proof (induction samples arbitrary: samples_data0)
  case Nil
  then show ?case by simp
next
  case (Cons s samples)
  from Cons.prems obtain arr where arr: "ak_concatenate lib (sample_arrays batches s) = Inr arr"
    and rest: "group_samples lib batches samples (AList.update s arr samples_data0) = Inr samples_data"
    by (cases "ak_concatenate lib (sample_arrays batches s)") simp_all
  from Cons.IH [OF rest] arr show ?case
    by (simp add: AList.update_conv')
qed

lemma check_samples_eq:
  "set samples \<subseteq> fst ` set samples_data \<Longrightarrow>
   check_samples lib samples_data samples =
     (case find (\<lambda>smp. entries lib samples_data smp = 0) samples of
        Some smp \<Rightarrow>
          (Some (Exit 1),
           low_warnings lib samples_data
             (takeWhile (\<lambda>smp. entries lib samples_data smp \<noteq> 0) samples) @
           [Print (''error: no data for sample - '' @ smp)])
      | None \<Rightarrow> (None, low_warnings lib samples_data samples))"
proof (induction samples)
  case Nil
  then show ?case by (simp add: low_warnings_def)
next
  case (Cons s samples)
  from Cons.prems have "map_of samples_data s \<noteq> None"
    by (simp add: map_of_eq_None_iff)
  then obtain arr where arr: "map_of samples_data s = Some arr" by blast
  from Cons.prems have sub: "set samples \<subseteq> fst ` set samples_data" by simp
  show ?case
  proof (cases "len lib arr = 0")
    case True
    with arr show ?thesis by (simp add: entries_def low_warnings_def)
  next
    case False
    with arr Cons.IH [OF sub] show ?thesis
      by (simp add: entries_def low_warnings_def split: option.splits)
  qed
qed

lemma group_samples_concatenated:
  "group_samples lib batches samples samples_data0 = Inr samples_data \<Longrightarrow>
   smp \<in> set samples \<Longrightarrow>
   \<exists>arr. ak_concatenate lib (sample_arrays batches smp) = Inr arr"
proof (induction samples arbitrary: samples_data0)
  case Nil
  then show ?case by simp
next
  case (Cons s samples)
  from Cons.prems(1) obtain arr where arr: "ak_concatenate lib (sample_arrays batches s) = Inr arr"
    and rest: "group_samples lib batches samples (AList.update s arr samples_data0) = Inr samples_data"
    by (cases "ak_concatenate lib (sample_arrays batches s)") simp_all
  show ?case
  proof (cases "smp = s")
    case True
    with arr show ?thesis by simp
  next
    case False
    with Cons.prems(2) have "smp \<in> set samples" by simp
    from Cons.IH [OF rest this] show ?thesis .
  qed
qed

lemma group_batches_lookup:
  assumes "group_batches lib batches samples = Inr samples_data"
    and "smp \<in> set (map fst samples)"
  shows "\<exists>arr. ak_concatenate lib (sample_arrays batches smp) = Inr arr \<and>
     map_of samples_data smp = Some arr"
proof -
  from assms(1) have g: "group_samples lib batches (map fst samples) [] = Inr samples_data"
    by (simp add: group_batches_def)
  from group_samples_concatenated [OF g assms(2)]
  obtain arr where arr: "ak_concatenate lib (sample_arrays batches smp) = Inr arr" by blast
  with group_samples_lookup [OF g, of smp] assms(2)
  have "map_of samples_data smp = Some arr" by simp
  with arr show ?thesis by blast
qed

lemma group_batches_keys:
  assumes "group_batches lib batches samples = Inr samples_data"
  shows "set (map fst samples) \<subseteq> fst ` set samples_data"
proof
  fix smp
  assume "smp \<in> set (map fst samples)"
  from group_batches_lookup [OF assms this]
  have "map_of samples_data smp \<noteq> None" by auto
  then show "smp \<in> fst ` set samples_data" by (simp add: map_of_eq_None_iff)
qed

text \<open>
  When \<open>group_batches\<close> returns, every sample has at least one retrieved batch and its
  array is the concatenation of the processed data of its retrieved batches, in arrival
  order. The loop over the samples, in the order of \<open>SAMPLES\<close>, then prints a warning
  for a sample whose array has 1 to 49 entries and goes on, prints nothing for a sample
  with 50 or more entries, and at the first sample whose array has no entry prints the
  error line naming that sample and exits with code 1. Without such a sample the run
  goes on to the plot.
\<close>

lemma aggregate_population:
  assumes "group_batches lib processed_batches (SAMPLES cfg) = Inr samples_data"
  shows "(\<forall>smp \<in> set (map fst (SAMPLES cfg)).
            \<exists>arr. ak_concatenate lib (sample_arrays processed_batches smp) = Inr arr \<and>
                  map_of samples_data smp = Some arr) \<and>
         aggregate lib plot cfg processed_batches =
           (case find (\<lambda>smp. entries lib samples_data smp = 0) (map fst (SAMPLES cfg)) of
              Some smp \<Rightarrow>
                (Exit 1,
                 low_warnings lib samples_data
                   (takeWhile (\<lambda>smp. entries lib samples_data smp \<noteq> 0) (map fst (SAMPLES cfg))) @
                 [Print (''error: no data for sample - '' @ smp)])
            | None \<Rightarrow>
                (case plot samples_data ''output/higgs_zz.png'' of
                   Some err \<Rightarrow> (Raise err, low_warnings lib samples_data (map fst (SAMPLES cfg)))
                 | None \<Rightarrow>
                     (Return, low_warnings lib samples_data (map fst (SAMPLES cfg)) @
                              [Print ''success: figure created''])))"
proof
  show "\<forall>smp \<in> set (map fst (SAMPLES cfg)).
            \<exists>arr. ak_concatenate lib (sample_arrays processed_batches smp) = Inr arr \<and>
                  map_of samples_data smp = Some arr"
    using group_batches_lookup [OF assms] by blast
next
  have c: "check_samples lib samples_data (map fst (SAMPLES cfg)) =
     (case find (\<lambda>smp. entries lib samples_data smp = 0) (map fst (SAMPLES cfg)) of
        Some smp \<Rightarrow>
          (Some (Exit 1),
           low_warnings lib samples_data
             (takeWhile (\<lambda>smp. entries lib samples_data smp \<noteq> 0) (map fst (SAMPLES cfg))) @
           [Print (''error: no data for sample - '' @ smp)])
      | None \<Rightarrow> (None, low_warnings lib samples_data (map fst (SAMPLES cfg))))"
    for lib :: "'a awkward"
    by (rule check_samples_eq [OF group_batches_keys [OF assms]])
  show "aggregate lib plot cfg processed_batches =
           (case find (\<lambda>smp. entries lib samples_data smp = 0) (map fst (SAMPLES cfg)) of
              Some smp \<Rightarrow>
                (Exit 1,
                 low_warnings lib samples_data
                   (takeWhile (\<lambda>smp. entries lib samples_data smp \<noteq> 0) (map fst (SAMPLES cfg))) @
                 [Print (''error: no data for sample - '' @ smp)])
            | None \<Rightarrow>
                (case plot samples_data ''output/higgs_zz.png'' of
                   Some err \<Rightarrow> (Raise err, low_warnings lib samples_data (map fst (SAMPLES cfg)))
                 | None \<Rightarrow>
                     (Return, low_warnings lib samples_data (map fst (SAMPLES cfg)) @
                              [Print ''success: figure created''])))"
    by (simp add: aggregate_def assms c split: option.splits)
qed

lemma demo_grouped3:
  "group_batches demo_lib demo_processed3 (SAMPLES demo_cfg3) =
     Inr [(''data'', replicate 60 0), (''signal'', replicate 10 0), (''noise'', [])]"
  by (simp add: group_batches_def ak_concatenate_def demo_lib_def demo_processed3_def
      demo_cfg3_def sample_arrays_def processed_def new_DataBatch_def)

lemma demo_population:
  "group_batches demo_lib demo_processed3 (SAMPLES demo_cfg3) =
     Inr [(''data'', replicate 60 0), (''signal'', replicate 10 0), (''noise'', [])] \<and>
   aggregate demo_lib demo_plot demo_cfg3 demo_processed3 =
     (Exit 1, [Print ''warning: less than 50 events for sample - signal'',
               Print ''error: no data for sample - noise''])"
proof -
  note population = aggregate_population [OF demo_grouped3, of demo_plot, THEN conjunct2]
  have "aggregate demo_lib demo_plot demo_cfg3 demo_processed3 =
     (Exit 1, [Print ''warning: less than 50 events for sample - signal'',
               Print ''error: no data for sample - noise''])"
    unfolding population
    by (simp add: entries_def low_warnings_def demo_lib_def demo_cfg3_def)
  with demo_grouped3 show ?thesis by (rule conjI)
qed

text \<open>
  A sample of \<open>SAMPLES\<close> without any batch in the retrieved list makes
  \<open>group_batches\<close> raise: the run ends in that exception, before the loop over the
  samples, and prints nothing from the grouping on.
\<close>

lemma group_samples_no_batch:
  "smp \<in> set samples \<Longrightarrow> sample_arrays batches smp = [] \<Longrightarrow>
   \<exists>err. group_samples lib batches samples samples_data = Inl err"
proof (induction samples arbitrary: samples_data)
  case Nil
  then show ?case by simp
next
  case (Cons s samples)
  show ?case
  proof (cases "ak_concatenate lib (sample_arrays batches s)")
    case (Inl err)
    then show ?thesis by simp
  next
    case (Inr arr)
    with Cons.prems(2) have "smp \<noteq> s" by (auto simp: ak_concatenate_def)
    with Cons.prems(1) have "smp \<in> set samples" by simp
    from Cons.IH [OF this Cons.prems(2)] Inr show ?thesis by simp
  qed
qed

lemma aggregate_no_batch:
  assumes "smp \<in> set (map fst (SAMPLES cfg))" and "sample_arrays processed_batches smp = []"
  shows "\<exists>err. aggregate lib plot cfg processed_batches = (Raise err, [])"
proof -
  from group_samples_no_batch [OF assms, of lib "[]"]
  obtain err where "group_batches lib processed_batches (SAMPLES cfg) = Inl err"
    by (auto simp: group_batches_def)
  then show ?thesis by (simp add: aggregate_def)
qed

lemma sparse_batches:
  "data_batcher sparse_env (SAMPLES sparse_cfg) (PATH sparse_cfg) (FRACTION sparse_cfg)
     (BATCH_SIZE sparse_cfg) = Inr [sparse_batch]"
  by (simp add: data_batcher_def sparse_env_def sparse_cfg_def batch_subsample_def
      subsample_source_def num_events_of_def py_round_def batch_range_def py_range.simps
      str_nat.simps sparse_batch_def new_DataBatch_def)

lemma sparse_complete:
  "missing_batches [sparse_batch] [processed sparse_batch (replicate 60 0)] = None"
  by (simp add: missing_batches_def expected_batches_map_def batch_id_set_def
      sparse_batch_def new_DataBatch_def processed_def)

lemma sparse_aggregate:
  "aggregate demo_lib demo_plot sparse_cfg [processed sparse_batch (replicate 60 0)] =
     (Raise ValueError, [])"
  by (simp add: aggregate_def group_batches_def ak_concatenate_def sparse_cfg_def demo_lib_def
      sample_arrays_def sparse_batch_def new_DataBatch_def processed_def)

text \<open>
  C5: a run that reaches the grouping with a sample that has no retrieved result. On a
  thousandth of the data the sample \<open>signal\<close> gets no batch; the one dispatched batch
  comes back, nothing is missing, and \<open>group_batches\<close> raises \<open>ValueError\<close> for
  \<open>signal\<close>. The run ends in that exception: the line
  \<open>error: no data for sample - signal\<close> is not printed and \<open>sys.exit(1)\<close> is not
  reached.
\<close>

theorem main_sample_without_batch_raises:
  "main sparse_cfg demo_lib demo_plot (Some ()) sparse_env 0
     [(Some (processed sparse_batch (replicate 60 0)), 0)] =
   (Raise ValueError,
    [Print ''status: number of batches - 1'',
     Channel_open, Queue_declare ''tasks'', Basic_publish ''tasks'' sparse_batch, Channel_close,
     Channel_open, Queue_declare ''results'',
     Basic_get ''results'' (Some (processed sparse_batch (replicate 60 0))), Time_check 0, Sleep 1,
     Channel_close,
     Connection_close])"
  by (simp add: main_def sparse_batches retrieve_batches_def send_data_def str_nat.simps
      report_missing_def sparse_complete sparse_aggregate)

section \<open>Properties of the worker\<close>

lemma retrieve_batch_idle:
  "attempts + int k < retries \<Longrightarrow>
   retrieve_batch queue_name retries wait_time attempts
     (replicate k None @ Some (tag, batch, result) # rest) =
   (Got tag batch result,
    concat (replicate k [Basic_get queue_name None, Sleep wait_time]) @
    [Basic_get queue_name (Some batch)], rest)"
proof (induction k arbitrary: attempts)
  case 0
  then show ?case by simp
next
  case (Suc k)
  from Suc.prems have "attempts + 1 + int k < retries" and "attempts < retries" by simp_all
  with Suc.IH [of "attempts + 1"] show ?case by simp
qed

lemma worker_loop_outcome: "fst (worker_loop trace) = Waiting \<or> fst (worker_loop trace) = Exit 0"
proof (induction trace rule: worker_loop.induct)
  case (1 trace)
  have eq: "worker_loop trace =
     (case retrieve_batch ''tasks'' 12 5 0 trace of
        (Pending, events, rest) \<Rightarrow> (Waiting, events)
      | (No_task, events, rest) \<Rightarrow>
          (Exit 0, events @ [Channel_close, Connection_close, Print ''exiting: no tasks in queue''])
      | (Got message_tag batch result, events, rest) \<Rightarrow>
          (let (out, later) = worker_loop rest
           in (out, events @ handle_task message_tag result @ later)))"
    by (rule worker_loop.simps)
  obtain r events rest where f: "retrieve_batch ''tasks'' 12 5 0 trace = (r, events, rest)"
    by (cases "retrieve_batch ''tasks'' 12 5 0 trace")
  show ?case
  proof (cases r)
    case (Got tag batch result)
    with f have "fst (worker_loop rest) = Waiting \<or> fst (worker_loop rest) = Exit 0"
      by (intro "1.IH") simp_all
    with f Got show ?thesis unfolding eq by (auto split: prod.splits)
  next
    case No_task
    with f show ?thesis unfolding eq by simp
  next
    case Pending
    with f show ?thesis unfolding eq by simp
  qed
qed

text \<open>
  C8, as stated: the failure is logged with the unit's identity. The worker below pulls
  the batch \<open>id-0\<close>, whose processing raises; the printed line holds the text of the
  exception and not the identifier of the batch.
\<close>

theorem worker_log_identity_counterexample:
  "\<not> mentions (batch_id demo_batch0)
        (snd (worker_main (Some ()) [Some (1, demo_batch0, Inl ''HTTP Error 503'')]))"
  by (subst worker_main_def, subst worker_loop.simps, subst worker_loop.simps)
     (simp add: handle_task_def mentions_def demo_batch0_def new_DataBatch_def
        sublist_code prefix_code)

text \<open>
  C8, amended: for every task the worker pulls, after fewer than 12 empty polls: if
  \<open>process_data\<close> raises an exception, the worker prints
  \<open>error: failed to process batch\<close> followed by the text of the exception (not the
  identity of the batch), rejects the task message with requeue, and goes on with its
  loop; if \<open>process_data\<close> returns, the worker publishes the processed batch to the
  results queue and then acknowledges the task message, and goes on with its loop. The
  loop never ends with an exception.
\<close>

theorem worker_handles_task:
  "k < 12 \<longrightarrow>
   worker_loop (replicate k None @ Some (tag, batch, result) # rest) =
     (fst (worker_loop rest),
      concat (replicate k [Basic_get ''tasks'' None, Sleep 5]) @
      [Basic_get ''tasks'' (Some batch)] @
      (case result of
         Inl e \<Rightarrow> [Print (''error: failed to process batch '' @ e), Basic_nack tag True]
       | Inr processed_batch \<Rightarrow>
           [Channel_open, Queue_declare ''results'', Basic_publish ''results'' processed_batch,
            Channel_close, Basic_ack tag]) @
      snd (worker_loop rest)) \<and>
   (\<forall>err. fst (worker_loop rest) \<noteq> Raise err)"
proof (intro impI conjI allI)
  assume "k < 12"
  then have "0 + int k < 12" by simp
  note fetch = retrieve_batch_idle [OF this, of "''tasks''" 5 tag batch result rest]
  show "worker_loop (replicate k None @ Some (tag, batch, result) # rest) =
     (fst (worker_loop rest),
      concat (replicate k [Basic_get ''tasks'' None, Sleep 5]) @
      [Basic_get ''tasks'' (Some batch)] @
      (case result of
         Inl e \<Rightarrow> [Print (''error: failed to process batch '' @ e), Basic_nack tag True]
       | Inr processed_batch \<Rightarrow>
           [Channel_open, Queue_declare ''results'', Basic_publish ''results'' processed_batch,
            Channel_close, Basic_ack tag]) @
      snd (worker_loop rest))"
    by (subst worker_loop.simps)
       (simp add: fetch handle_task_def send_data_def split: prod.splits sum.splits)
next
  fix err
  assume "k < 12"
  from worker_loop_outcome [of rest] show "fst (worker_loop rest) \<noteq> Raise err" by auto
qed

theorem worker_handles_task_witness:
  "(1::nat) < 12 \<and>
   worker_loop (replicate 1 None @ Some (7, demo_batch0, Inl ''HTTP Error 503'') # []) =
     (Waiting,
      [Basic_get ''tasks'' None, Sleep 5, Basic_get ''tasks'' (Some demo_batch0),
       Print ''error: failed to process batch HTTP Error 503'', Basic_nack 7 True])"
proof -
  have e: "worker_loop ([] :: nat list delivery list) = (Waiting, [])"
    by (subst worker_loop.simps) simp
  from worker_handles_task [of 1 7 demo_batch0 "Inl ''HTTP Error 503''" "[]"]
  show ?thesis by (simp add: e)
qed

end
